theory Spec2Isabelle
  imports Complex_Main "HOL-Library.AList"
begin

section \<open>The values setup.py works with\<close>

text \<open>
  The exceptions that can leave a statement of \<open>setup\<close>.  \<open>SystemExit\<close> carries the
  argument of \<open>sys.exit\<close> (\<open>None\<close> when it is called without one).
\<close>

datatype exn =
    AssertionError
  | TypeError
  | ValueError
  | ZeroDivisionError
  | OverflowError
  | OSError string
  | RuntimeError string
  | SystemExit "int option"
  | OtherException string

datatype signal = SIGTERM | SIGKILL

text \<open>
  Callables are compared by \<open>atexit.unregister\<close> with \<open>==\<close>, which for functions is
  object identity: the builtin \<open>os.killpg\<close> is one object, and every evaluation of a
  \<open>lambda\<close> expression makes a new function object, numbered here in creation order.
\<close>

datatype callable = OsKillpg | Lambda nat

datatype pyval = PyInt nat | PySignal signal

datatype weather = ClearNoon

text \<open>
  The requests of the try block, with their arguments.  A Python float is kept as the
  rational number it denotes; float arithmetic is not done here but taken from the
  platform (see \<open>float_truediv\<close> below), since it rounds and can raise.
\<close>

datatype rpc_request =
    NewClient string int
  | SetTimeout rat
  | LoadWorld string
  | GetWorld
  | SetWeather weather
  | ApplySettings bool rat
  | GetServerVersion
  | GetClientVersion

datatype log_record =
    AttemptOutOf int int
  | InitsServer int
  | ConnectsClient int
  | LoadingWorld string
  | ServerVersion
  | ClientVersion
  | ExnMessage string
  | StoppingServer int
  | FailedToConnect int

type_synonym dict = "(string \<times> string) list"

text \<open>What the program does to the outside, in order.\<close>

datatype event =
    Log log_record
  | Started string string dict nat
  | Sleep rat
  | Rpc int rpc_request
  | Kill nat signal
  | Killpg nat signal

datatype client = Client string int

datatype sim_world = World client

text \<open>The arguments of \<open>setup\<close>.\<close>

record config =
  town :: string
  fps :: int
  server_timestop :: rat
  client_timeout :: rat
  num_max_restarts :: int

text \<open>
  What lies outside the source: the platform, \<open>os.path.join\<close>, the operating system's
  process creation (program and command line to a pid, or the \<open>OSError\<close> it raises),
  float division (\<open>x / d\<close> for a float \<open>x\<close> and an int \<open>d\<close> other than \<open>0\<close>: the
  double that results from converting \<open>d\<close> and dividing, or the exception, such as
  \<open>OverflowError\<close> for an int beyond the range of a double), and the simulator behind
  each port (the exception a request raises, if any, and the frame id that
  \<open>apply_settings\<close> returns for the settings it is given).
\<close>

record platform =
  nt :: bool
  path_join :: "string \<Rightarrow> string \<Rightarrow> string"
  spawn :: "string \<Rightarrow> string \<Rightarrow> exn + nat"
  float_truediv :: "rat \<Rightarrow> int \<Rightarrow> exn + rat"
  rpc_error :: "int \<Rightarrow> rpc_request \<Rightarrow> exn option"
  apply_settings_frame :: "int \<Rightarrow> bool \<Rightarrow> rat \<Rightarrow> nat"

text \<open>
  The interpreter state \<open>setup\<close> reads and writes: the store of dict objects (address
  \<open>0\<close> is \<open>os.environ\<close>), the functions registered with \<open>atexit\<close> in registration
  order, the number of function objects created so far, the variable \<open>server\<close> (the pid
  of the last \<open>Popen\<close> object, which the lambdas close over), and the trace.
\<close>

record pstate =
  dicts :: "dict list"
  exitfuncs :: "(callable \<times> pyval list) list"
  next_object :: nat
  server :: "nat option"
  events :: "event list"

type_synonym 'a action = "pstate \<Rightarrow> (exn + 'a) \<times> pstate"

type_synonym ret = "client \<times> sim_world \<times> nat \<times> nat"

section \<open>Library calls\<close>

definition emit :: "event \<Rightarrow> pstate \<Rightarrow> pstate" where
  "emit e s = s\<lparr>events := events s @ [e]\<rparr>"

definition debug :: "log_record \<Rightarrow> pstate \<Rightarrow> pstate" where
  "debug r s = emit (Log r) s"

definition os_environ :: nat where
  "os_environ = 0"

definition dict_copy :: "nat \<Rightarrow> pstate \<Rightarrow> nat \<times> pstate" where
  "dict_copy a s = (length (dicts s), s\<lparr>dicts := dicts s @ [dicts s ! a]\<rparr>)"

definition dict_setitem :: "nat \<Rightarrow> string \<Rightarrow> string \<Rightarrow> pstate \<Rightarrow> pstate" where
  "dict_setitem a k v s = s\<lparr>dicts := (dicts s)[a := AList.update k v (dicts s ! a)]\<rparr>"

definition dict_get :: "nat \<Rightarrow> string \<Rightarrow> pstate \<Rightarrow> string option" where
  "dict_get a k s = map_of (dicts s ! a) k"

fun str_nat :: "nat \<Rightarrow> string" where
  "str_nat n =
     (if n < 10 then [''0123456789'' ! n]
      else str_nat (n div 10) @ [''0123456789'' ! (n mod 10)])"

definition str_int :: "int \<Rightarrow> string" where
  "str_int i = (if i < 0 then CHR ''-'' # str_nat (nat (- i)) else str_nat (nat i))"

text \<open>
  \<open>subprocess.Popen(cmd, shell=True)\<close> starts the shell and hands it the command line:
  it raises only when the shell itself cannot be started.  Whether the program named in
  the command line exists is found out by the shell, after \<open>Popen\<close> has returned.
\<close>

definition shell_program :: "platform \<Rightarrow> pstate \<Rightarrow> string" where
  "shell_program w s =
     (if nt w then (case dict_get os_environ ''COMSPEC'' s of Some c \<Rightarrow> c | None \<Rightarrow> ''cmd.exe'')
      else ''/bin/sh'')"

definition Popen_shell :: "platform \<Rightarrow> string \<Rightarrow> nat \<Rightarrow> nat action" where
  "Popen_shell w cmd env s =
     (case spawn w (shell_program w s) cmd of
        Inl e \<Rightarrow> (Inl e, s)
      | Inr pid \<Rightarrow>
          (Inr pid, (emit (Started (shell_program w s) cmd (dicts s ! env) pid) s)\<lparr>server := Some pid\<rparr>))"

definition os_kill :: "nat \<Rightarrow> signal \<Rightarrow> pstate \<Rightarrow> pstate" where
  "os_kill pid sg s = emit (Kill pid sg) s"

definition os_killpg :: "nat \<Rightarrow> signal \<Rightarrow> pstate \<Rightarrow> pstate" where
  "os_killpg pid sg s = emit (Killpg pid sg) s"

definition new_lambda :: "pstate \<Rightarrow> callable \<times> pstate" where
  "new_lambda s = (Lambda (next_object s), s\<lparr>next_object := Suc (next_object s)\<rparr>)"

definition atexit_register :: "callable \<Rightarrow> pyval list \<Rightarrow> pstate \<Rightarrow> pstate" where
  "atexit_register f args s = s\<lparr>exitfuncs := exitfuncs s @ [(f, args)]\<rparr>"

definition atexit_unregister :: "callable \<Rightarrow> pstate \<Rightarrow> pstate" where
  "atexit_unregister f s = s\<lparr>exitfuncs := filter (\<lambda>(g, args). g \<noteq> f) (exitfuncs s)\<rparr>"

definition time_sleep :: "rat \<Rightarrow> unit action" where
  "time_sleep secs s = (if secs < 0 then (Inl ValueError, s) else (Inr (), emit (Sleep secs) s))"

definition rpc :: "platform \<Rightarrow> int \<Rightarrow> rpc_request \<Rightarrow> unit action" where
  "rpc w port rq s =
     (case rpc_error w port rq of
        Some e \<Rightarrow> (Inl e, emit (Rpc port rq) s)
      | None \<Rightarrow> (Inr (), emit (Rpc port rq) s))"

definition float_div :: "platform \<Rightarrow> rat \<Rightarrow> int \<Rightarrow> rat action" where
  "float_div w x d s =
     (if d = 0 then (Inl ZeroDivisionError, s)
      else (case float_truediv w x d of Inl e \<Rightarrow> (Inl e, s) | Inr q \<Rightarrow> (Inr q, s)))"

definition apply_settings :: "platform \<Rightarrow> int \<Rightarrow> bool \<Rightarrow> rat \<Rightarrow> nat action" where
  "apply_settings w port synchronous_mode fixed_delta_seconds s =
     (case rpc_error w port (ApplySettings synchronous_mode fixed_delta_seconds) of
        Some e \<Rightarrow> (Inl e, emit (Rpc port (ApplySettings synchronous_mode fixed_delta_seconds)) s)
      | None \<Rightarrow>
          (Inr (apply_settings_frame w port synchronous_mode fixed_delta_seconds),
           emit (Rpc port (ApplySettings synchronous_mode fixed_delta_seconds)) s))"

definition logging :: "log_record \<Rightarrow> unit action" where
  "logging r s = (Inr (), debug r s)"

definition then_do :: "'a action \<Rightarrow> ('a \<Rightarrow> 'b action) \<Rightarrow> 'b action" where
  "then_do m f s = (case m s of (Inl e, s') \<Rightarrow> (Inl e, s') | (Inr x, s') \<Rightarrow> f x s')"

definition returns :: "'a \<Rightarrow> 'a action" where
  "returns x s = (Inr x, s)"

section \<open>setup\<close>

definition server_command :: "platform \<Rightarrow> string \<Rightarrow> int \<Rightarrow> string" where
  "server_command w carla_root port =
     (if nt w then
        path_join w carla_root ''CarlaUE4.exe'' @ '' -opengl '' @ '' -carla-rpc-port='' @ str_int port
          @ '' -quality-level=Epic ''
      else
        ''DISPLAY= '' @ path_join w carla_root ''CarlaUE4.sh'' @ '' -opengl '' @ '' -carla-rpc-port=''
          @ str_int port @ '' -quality-level=Epic '')"

text \<open>
  Lines 53 to 74: the port, the child's environment, the server process, its exit hook
  and the warm-up sleep.  \<open>os.path.join\<close> raises \<open>TypeError\<close> when \<open>CARLA_ROOT\<close> is not
  set, and \<open>time.sleep\<close> raises \<open>ValueError\<close> on a negative length.
\<close>

definition launch :: "platform \<Rightarrow> config \<Rightarrow> int \<Rightarrow> (int \<times> nat) action" where
  "launch w c attempts s0 =
     (let port = 2000 + attempts;
          (env, s1) = dict_copy os_environ s0;
          s2 = dict_setitem env ''SDL_VIDEODRIVER'' ''offscreen'' s1;
          s3 = dict_setitem env ''SDL_HINT_CUDA_DEVICE'' ''0'' s2;
          s4 = debug (InitsServer port) s3
      in case dict_get os_environ ''CARLA_ROOT'' s4 of
           None \<Rightarrow> (Inl TypeError, s4)
         | Some carla_root \<Rightarrow>
             (case Popen_shell w (server_command w carla_root port) env s4 of
                (Inl e, s5) \<Rightarrow> (Inl e, s5)
              | (Inr pid, s5) \<Rightarrow>
                  (let s6 = (if nt w then (let (f, s') = new_lambda s5 in atexit_register f [] s')
                             else atexit_register OsKillpg [PyInt pid, PySignal SIGKILL] s5)
                   in case time_sleep (server_timestop c) s6 of
                        (Inl e, s7) \<Rightarrow> (Inl e, s7)
                      | (Inr u, s7) \<Rightarrow> (Inr (port, pid), s7))))"

text \<open>Lines 79 to 92: the body of the try block.\<close>

definition connect :: "platform \<Rightarrow> config \<Rightarrow> int \<Rightarrow> nat \<Rightarrow> ret action" where
  "connect w c port pid =
     then_do (rpc w port (NewClient ''localhost'' port)) (\<lambda>u.
     then_do (rpc w port (SetTimeout (client_timeout c))) (\<lambda>u.
     then_do (logging (LoadingWorld (town c))) (\<lambda>u.
     then_do (rpc w port (LoadWorld (town c))) (\<lambda>u.
     then_do (rpc w port GetWorld) (\<lambda>u.
     then_do (rpc w port (SetWeather ClearNoon)) (\<lambda>u.
     then_do (float_div w 1 (fps c)) (\<lambda>dt.
     then_do (apply_settings w port True dt) (\<lambda>frame.
     then_do (rpc w port GetServerVersion) (\<lambda>u.
     then_do (logging ServerVersion) (\<lambda>u.
     then_do (rpc w port GetClientVersion) (\<lambda>u.
     then_do (logging ClientVersion) (\<lambda>u.
     returns (Client ''localhost'' port, World (Client ''localhost'' port), frame, pid)))))))))))))"

text \<open>
  Lines 94 to 103: the handler of \<open>RuntimeError\<close> (the increment of \<open>attempts\<close> is in
  the loop below).  The argument of \<open>atexit.unregister\<close> is a lambda expression, so a
  function object made on the spot.
\<close>

definition on_runtime_error :: "platform \<Rightarrow> string \<Rightarrow> int \<Rightarrow> nat \<Rightarrow> pstate \<Rightarrow> pstate" where
  "on_runtime_error w msg port pid s =
     (let s1 = debug (ExnMessage msg) s;
          s2 = debug (StoppingServer port) s1;
          s3 = (if nt w then os_kill pid SIGTERM s2 else os_killpg pid SIGKILL s2);
          (f, s4) = new_lambda s3
      in atexit_unregister f s4)"

function setup_loop :: "platform \<Rightarrow> config \<Rightarrow> int \<Rightarrow> ret action" where
  "setup_loop w c attempts s =
     (if attempts < num_max_restarts c then
        (case launch w c attempts (debug (AttemptOutOf (attempts + 1) (num_max_restarts c)) s) of
           (Inl e, s1) \<Rightarrow> (Inl e, s1)
         | (Inr (port, pid), s1) \<Rightarrow>
             (case connect w c port pid (debug (ConnectsClient port) s1) of
                (Inr r, s2) \<Rightarrow> (Inr r, s2)
              | (Inl (RuntimeError msg), s2) \<Rightarrow>
                  setup_loop w c (attempts + 1) (on_runtime_error w msg port pid s2)
              | (Inl e, s2) \<Rightarrow> (Inl e, s2)))
      else (Inl (SystemExit None), debug (FailedToConnect (num_max_restarts c)) s))"
  by pat_completeness auto
termination
  by (relation "measure (\<lambda>(w, c, attempts, s). nat (num_max_restarts c - attempts))") auto

definition setup_py :: "platform \<Rightarrow> config \<Rightarrow> ret action" where
  "setup_py w c s =
     (if town c \<in> set [''Town01'', ''Town02'', ''Town03'', ''Town04'', ''Town05'']
      then setup_loop w c 0 s
      else (Inl AssertionError, s))"

section \<open>Interpreter exit\<close>

text \<open>
  At interpreter exit the registered functions run, last registered first.  The lambda
  of line 66 reads the variable \<open>server\<close> when it runs.  The exit status of a program
  that ends by an uncaught exception is \<open>0\<close> for \<open>SystemExit\<close> without an argument.
\<close>

fun call_exitfunc :: "callable \<times> pyval list \<Rightarrow> pstate \<Rightarrow> pstate" where
  "call_exitfunc (OsKillpg, [PyInt pid, PySignal sg]) s = os_killpg pid sg s"
| "call_exitfunc (Lambda k, []) s =
     (case server s of Some pid \<Rightarrow> os_kill pid SIGTERM s | None \<Rightarrow> s)"
| "call_exitfunc f s = s"

definition run_exitfuncs :: "pstate \<Rightarrow> pstate" where
  "run_exitfuncs s = (fold call_exitfunc (rev (exitfuncs s)) s)\<lparr>exitfuncs := []\<rparr>"

fun exit_status :: "exn \<Rightarrow> int" where
  "exit_status (SystemExit None) = 0"
| "exit_status (SystemExit (Some code)) = code"
| "exit_status e = 1"

section \<open>The shell\<close>





section \<open>Reading the trace\<close>

text \<open>
  The ports the clients were pointed at, the command lines handed to the shell, the
  environments given to the shell and those the simulator is run with, and the pids
  killed, each in the order of the trace.
\<close>

fun client_ports :: "event list \<Rightarrow> int list" where
  "client_ports [] = []"
| "client_ports (Rpc p (NewClient h q) # evs) = q # client_ports evs"
| "client_ports (e # evs) = client_ports evs"

fun started_commands :: "event list \<Rightarrow> string list" where
  "started_commands [] = []"
| "started_commands (Started sh cmd env pid # evs) = cmd # started_commands evs"
| "started_commands (e # evs) = started_commands evs"



fun killed :: "event list \<Rightarrow> nat list" where
  "killed [] = []"
| "killed (Kill pid sg # evs) = pid # killed evs"
| "killed (Killpg pid sg # evs) = pid # killed evs"
| "killed (e # evs) = killed evs"

section \<open>Concrete runs\<close>

text \<open>
  A POSIX host and a Windows host on which the shell starts (the pid is made from the
  command line, so that the attempts get different pids) and every \<open>load_world\<close> times
  out; a POSIX host whose simulator answers every request; and a POSIX host on which
  only the shell can be started: the simulator's executable is missing, and nothing
  ever listens on a port.  Their float division gives the double nearest to \<open>1/20\<close>
  for \<open>1.0 / 20\<close>, the one division the runs below make.
\<close>

definition posix_down :: platform where
  "posix_down =
     \<lparr>nt = False, path_join = (\<lambda>a b. a @ ''/'' @ b),
      spawn = (\<lambda>prog cmd. Inr (sum_list (map of_char cmd))),
      float_truediv = (\<lambda>x d. if x = 1 \<and> d = 20 then Inr (3602879701896397 / 72057594037927936)
                               else Inr (x / of_int d)),
      rpc_error = (\<lambda>port rq. case rq of LoadWorld t \<Rightarrow> Some (RuntimeError ''time-out'') | _ \<Rightarrow> None),
      apply_settings_frame = (\<lambda>port synchronous_mode fixed_delta_seconds. 7)\<rparr>"

definition windows_down :: platform where
  "windows_down = posix_down\<lparr>nt := True, path_join := (\<lambda>a b. a @ [CHR 0x5C] @ b)\<rparr>"

definition posix_up :: platform where
  "posix_up = posix_down\<lparr>rpc_error := (\<lambda>port rq. None)\<rparr>"

definition posix_no_executable :: platform where
  "posix_no_executable =
     \<lparr>nt = False, path_join = (\<lambda>a b. a @ ''/'' @ b),
      spawn = (\<lambda>prog cmd. if prog = ''/bin/sh'' then Inr 4242
                            else Inl (OSError ''No such file or directory'')),
      float_truediv = (\<lambda>x d. if x = 1 \<and> d = 20 then Inr (3602879701896397 / 72057594037927936)
                               else Inr (x / of_int d)),
      rpc_error = (\<lambda>port rq. case rq of NewClient h q \<Rightarrow> None | SetTimeout t \<Rightarrow> None
                                | _ \<Rightarrow> Some (RuntimeError ''time-out'')),
      apply_settings_frame = (\<lambda>port synchronous_mode fixed_delta_seconds. 0)\<rparr>"

definition boot :: pstate where
  "boot =
     \<lparr>dicts = [[(''CARLA_ROOT'', ''/opt/carla''), (''DISPLAY'', '':0'')]], exitfuncs = [],
      next_object = 0, server = None, events = []\<rparr>"

definition defaults :: "string \<Rightarrow> config" where
  "defaults t =
     \<lparr>town = t, fps = 20, server_timestop = 30, client_timeout = 20, num_max_restarts = 10\<rparr>"

section \<open>Basic facts\<close>

lemma emit_simps:
  "events (emit e s) = events s @ [e]"
  "dicts (emit e s) = dicts s"
  "exitfuncs (emit e s) = exitfuncs s"
  "next_object (emit e s) = next_object s"
  "server (emit e s) = server s"
  by (simp_all add: emit_def)

lemmas prim_defs = emit_def debug_def os_kill_def os_killpg_def dict_copy_def dict_setitem_def
  dict_get_def new_lambda_def atexit_register_def atexit_unregister_def time_sleep_def
  Popen_shell_def shell_program_def os_environ_def

subsection \<open>The cases of the loop\<close>

declare setup_loop.simps [simp del]


lemma setup_loop_exhausted:
  "\<not> a < num_max_restarts c \<Longrightarrow>
   setup_loop w c a s = (Inl (SystemExit None), debug (FailedToConnect (num_max_restarts c)) s)"
  by (subst setup_loop.simps) simp

lemma setup_loop_launch_fails:
  "a < num_max_restarts c \<Longrightarrow>
   launch w c a (debug (AttemptOutOf (a + 1) (num_max_restarts c)) s) = (Inl e, s1) \<Longrightarrow>
   setup_loop w c a s = (Inl e, s1)"
  by (subst setup_loop.simps) simp

lemma setup_loop_success:
  "a < num_max_restarts c \<Longrightarrow>
   launch w c a (debug (AttemptOutOf (a + 1) (num_max_restarts c)) s) = (Inr (port, pid), s1) \<Longrightarrow>
   connect w c port pid (debug (ConnectsClient port) s1) = (Inr r, s2) \<Longrightarrow>
   setup_loop w c a s = (Inr r, s2)"
  by (subst setup_loop.simps) simp

lemma setup_loop_retry:
  "a < num_max_restarts c \<Longrightarrow>
   launch w c a (debug (AttemptOutOf (a + 1) (num_max_restarts c)) s) = (Inr (port, pid), s1) \<Longrightarrow>
   connect w c port pid (debug (ConnectsClient port) s1) = (Inl (RuntimeError msg), s2) \<Longrightarrow>
   setup_loop w c a s = setup_loop w c (a + 1) (on_runtime_error w msg port pid s2)"
  by (subst setup_loop.simps) simp

lemma setup_loop_propagates:
  "a < num_max_restarts c \<Longrightarrow>
   launch w c a (debug (AttemptOutOf (a + 1) (num_max_restarts c)) s) = (Inr (port, pid), s1) \<Longrightarrow>
   connect w c port pid (debug (ConnectsClient port) s1) = (Inl e, s2) \<Longrightarrow>
   \<forall>msg. e \<noteq> RuntimeError msg \<Longrightarrow>
   setup_loop w c a s = (Inl e, s2)"
  by (subst setup_loop.simps) (cases e; simp)

lemma setup_loop_rule [case_names exhausted launch_fails success propagates retry]:
  assumes A1: "\<And>a s. \<not> a < num_max_restarts c \<Longrightarrow>
             P a s (Inl (SystemExit None), debug (FailedToConnect (num_max_restarts c)) s)"
    and A2: "\<And>a s e s1. a < num_max_restarts c \<Longrightarrow>
             launch w c a (debug (AttemptOutOf (a + 1) (num_max_restarts c)) s) = (Inl e, s1) \<Longrightarrow>
             P a s (Inl e, s1)"
    and A3: "\<And>a s port pid s1 r s2. a < num_max_restarts c \<Longrightarrow>
             launch w c a (debug (AttemptOutOf (a + 1) (num_max_restarts c)) s) = (Inr (port, pid), s1) \<Longrightarrow>
             connect w c port pid (debug (ConnectsClient port) s1) = (Inr r, s2) \<Longrightarrow>
             P a s (Inr r, s2)"
    and A4: "\<And>a s port pid s1 e s2. a < num_max_restarts c \<Longrightarrow>
             launch w c a (debug (AttemptOutOf (a + 1) (num_max_restarts c)) s) = (Inr (port, pid), s1) \<Longrightarrow>
             connect w c port pid (debug (ConnectsClient port) s1) = (Inl e, s2) \<Longrightarrow>
             \<forall>msg. e \<noteq> RuntimeError msg \<Longrightarrow>
             P a s (Inl e, s2)"
    and A5: "\<And>a s port pid s1 msg s2. a < num_max_restarts c \<Longrightarrow>
             launch w c a (debug (AttemptOutOf (a + 1) (num_max_restarts c)) s) = (Inr (port, pid), s1) \<Longrightarrow>
             connect w c port pid (debug (ConnectsClient port) s1) = (Inl (RuntimeError msg), s2) \<Longrightarrow>
             P (a + 1) (on_runtime_error w msg port pid s2)
               (setup_loop w c (a + 1) (on_runtime_error w msg port pid s2)) \<Longrightarrow>
             P a s (setup_loop w c (a + 1) (on_runtime_error w msg port pid s2))"
  shows "P a s (setup_loop w c a s)"
  using A1 A2 A3 A4 A5
proof (induction w c a s rule: setup_loop.induct)
  case (1 w c a s)
  note B1 = "1.prems"(1) and B2 = "1.prems"(2) and B3 = "1.prems"(3)
    and B4 = "1.prems"(4) and B5 = "1.prems"(5)
  let ?s0 = "debug (AttemptOutOf (a + 1) (num_max_restarts c)) s"
  show ?case
  proof (cases "a < num_max_restarts c")
    case False
    show ?thesis unfolding setup_loop_exhausted[OF False] by (rule B1[OF False])
  next
    case lt: True
    obtain r s1 where L: "launch w c a ?s0 = (r, s1)" by (cases "launch w c a ?s0")
    show ?thesis
    proof (cases r)
      case (Inl e)
      note L' = L[unfolded Inl]
      show ?thesis unfolding setup_loop_launch_fails[OF lt L'] by (rule B2[OF lt L'])
    next
      case (Inr pp)
      obtain port pid where pp: "pp = (port, pid)" by (cases pp)
      note L' = L[unfolded Inr pp]
      obtain r2 s2 where C: "connect w c port pid (debug (ConnectsClient port) s1) = (r2, s2)"
        by (cases "connect w c port pid (debug (ConnectsClient port) s1)")
      show ?thesis
      proof (cases r2)
        case (Inr ret)
        note C' = C[unfolded Inr]
        show ?thesis unfolding setup_loop_success[OF lt L' C'] by (rule B3[OF lt L' C'])
      next
        case (Inl e)
        show ?thesis
        proof (cases "\<exists>msg. e = RuntimeError msg")
          case False
          then have ne: "\<forall>msg. e \<noteq> RuntimeError msg" by blast
          note C' = C[unfolded Inl]
          show ?thesis unfolding setup_loop_propagates[OF lt L' C' ne] by (rule B4[OF lt L' C' ne])
        next
          case True
          then obtain msg where e: "e = RuntimeError msg" by blast
          note C' = C[unfolded Inl e]
          have "P (a + 1) (on_runtime_error w msg port pid s2)
                  (setup_loop w c (a + 1) (on_runtime_error w msg port pid s2))"
            by (rule "1.IH"[OF lt L[symmetric] Inr pp[symmetric] C[symmetric] Inl e "1.prems"])
          from B5[OF lt L' C' this] show ?thesis
            unfolding setup_loop_retry[OF lt L' C'] .
        qed
      qed
    qed
  qed
qed

subsection \<open>The dict store\<close>

lemma launch_dicts:
  assumes "dicts s \<noteq> []"
  shows "dicts (snd (launch w c a s)) \<noteq> [] \<and> dicts (snd (launch w c a s)) ! 0 = dicts s ! 0"
  using assms
  by (auto simp: launch_def prim_defs Let_def nth_append nth_list_update
      split: option.splits sum.splits prod.splits if_splits)

lemma then_do_dicts:
  assumes "\<And>s. dicts (snd (m s)) = dicts s" and "\<And>x s. dicts (snd (f x s)) = dicts s"
  shows "dicts (snd (then_do m f s)) = dicts s"
  using assms by (auto simp: then_do_def split: prod.splits sum.splits) (metis snd_conv)+

lemma rpc_dicts: "dicts (snd (rpc w p rq s)) = dicts s"
  by (simp add: rpc_def emit_def split: option.splits)

lemma connect_dicts: "dicts (snd (connect w c p pid s)) = dicts s"
  unfolding connect_def
  by (intro then_do_dicts)
    (simp_all add: rpc_dicts apply_settings_def logging_def float_div_def returns_def debug_def emit_def
      split: option.splits sum.splits)

lemma on_runtime_error_dicts: "dicts (on_runtime_error w msg p pid s) = dicts s"
  by (simp add: on_runtime_error_def prim_defs Let_def)

lemma attempt_dicts:
  assumes "dicts s \<noteq> []"
    and "launch w c a (debug r s) = (Inr (port, pid), s1)"
    and "connect w c port pid (debug r' s1) = (x, s2)"
  shows "dicts s2 \<noteq> [] \<and> dicts s2 ! 0 = dicts s ! 0"
proof -
  have "dicts (debug r s) \<noteq> []" "dicts (debug r s) ! 0 = dicts s ! 0"
    using assms(1) by (simp_all add: debug_def emit_def)
  with launch_dicts[of "debug r s" w c a] assms(2)
  have "dicts s1 \<noteq> [] \<and> dicts s1 ! 0 = dicts s ! 0" by simp
  moreover have "dicts s2 = dicts s1"
    using connect_dicts[of w c port pid "debug r' s1"] assms(3) by (simp add: debug_def emit_def)
  ultimately show ?thesis by simp
qed

lemma setup_loop_environ:
  "dicts s \<noteq> [] \<longrightarrow>
     dicts (snd (setup_loop w c a s)) \<noteq> [] \<and> dicts (snd (setup_loop w c a s)) ! 0 = dicts s ! 0"
proof (rule setup_loop_rule[where P = "\<lambda>a s res. dicts s \<noteq> [] \<longrightarrow>
     dicts (snd res) \<noteq> [] \<and> dicts (snd res) ! 0 = dicts s ! 0"])
  fix a s
  show "dicts s \<noteq> [] \<longrightarrow>
    dicts (snd (Inl (SystemExit None) :: exn + ret, debug (FailedToConnect (num_max_restarts c)) s)) \<noteq> [] \<and>
    dicts (snd (Inl (SystemExit None) :: exn + ret, debug (FailedToConnect (num_max_restarts c)) s)) ! 0 = dicts s ! 0"
    by (simp add: debug_def emit_def)
next
  fix a s e s1
  assume "launch w c a (debug (AttemptOutOf (a + 1) (num_max_restarts c)) s) = (Inl e, s1)"
  then show "dicts s \<noteq> [] \<longrightarrow>
    dicts (snd (Inl e :: exn + ret, s1)) \<noteq> [] \<and> dicts (snd (Inl e :: exn + ret, s1)) ! 0 = dicts s ! 0"
    using launch_dicts[of "debug (AttemptOutOf (a + 1) (num_max_restarts c)) s" w c a]
    by (simp add: debug_def emit_def)
next
  fix a s port pid s1 r s2
  assume "launch w c a (debug (AttemptOutOf (a + 1) (num_max_restarts c)) s) = (Inr (port, pid), s1)"
    and "connect w c port pid (debug (ConnectsClient port) s1) = (Inr r, s2)"
  then show "dicts s \<noteq> [] \<longrightarrow>
    dicts (snd (Inr r :: exn + ret, s2)) \<noteq> [] \<and> dicts (snd (Inr r :: exn + ret, s2)) ! 0 = dicts s ! 0"
    using attempt_dicts by auto
next
  fix a s port pid s1 e s2
  assume "launch w c a (debug (AttemptOutOf (a + 1) (num_max_restarts c)) s) = (Inr (port, pid), s1)"
    and "connect w c port pid (debug (ConnectsClient port) s1) = (Inl e, s2)"
  then show "dicts s \<noteq> [] \<longrightarrow>
    dicts (snd (Inl e :: exn + ret, s2)) \<noteq> [] \<and> dicts (snd (Inl e :: exn + ret, s2)) ! 0 = dicts s ! 0"
    using attempt_dicts by auto
next
  fix a s port pid s1 msg s2
  let ?s3 = "on_runtime_error w msg port pid s2"
  assume L: "launch w c a (debug (AttemptOutOf (a + 1) (num_max_restarts c)) s) = (Inr (port, pid), s1)"
    and C: "connect w c port pid (debug (ConnectsClient port) s1) = (Inl (RuntimeError msg), s2)"
    and IH: "dicts ?s3 \<noteq> [] \<longrightarrow>
       dicts (snd (setup_loop w c (a + 1) ?s3)) \<noteq> [] \<and>
       dicts (snd (setup_loop w c (a + 1) ?s3)) ! 0 = dicts ?s3 ! 0"
  show "dicts s \<noteq> [] \<longrightarrow>
       dicts (snd (setup_loop w c (a + 1) ?s3)) \<noteq> [] \<and>
       dicts (snd (setup_loop w c (a + 1) ?s3)) ! 0 = dicts s ! 0"
    using attempt_dicts[OF _ L C] IH by (simp add: on_runtime_error_dicts)
qed

subsection \<open>One attempt\<close>

lemma launch_eq:
  assumes "dicts s \<noteq> []"
  shows "launch w c a s =
    (let port = 2000 + a;
         env = AList.update ''SDL_HINT_CUDA_DEVICE'' ''0''
                 (AList.update ''SDL_VIDEODRIVER'' ''offscreen'' (dicts s ! 0));
         s4 = s\<lparr>dicts := dicts s @ [env], events := events s @ [Log (InitsServer port)]\<rparr>
     in case map_of (dicts s ! 0) ''CARLA_ROOT'' of
          None \<Rightarrow> (Inl TypeError, s4)
        | Some carla_root \<Rightarrow>
            (case spawn w (shell_program w s) (server_command w carla_root port) of
               Inl e \<Rightarrow> (Inl e, s4)
             | Inr pid \<Rightarrow>
                 (let s6 = s4\<lparr>events := events s @ [Log (InitsServer port),
                                  Started (shell_program w s) (server_command w carla_root port) env pid],
                               server := Some pid,
                               exitfuncs := exitfuncs s @
                                 [if nt w then (Lambda (next_object s), [])
                                  else (OsKillpg, [PyInt pid, PySignal SIGKILL])],
                               next_object := (if nt w then Suc (next_object s) else next_object s)\<rparr>
                  in if server_timestop c < 0 then (Inl ValueError, s6)
                     else (Inr (port, pid), s6\<lparr>events := events s6 @ [Sleep (server_timestop c)]\<rparr>))))"
  using assms
  by (simp add: launch_def prim_defs Let_def nth_append split: option.splits sum.splits)

lemma then_do_preserves:
  assumes "\<And>s. g (snd (m s)) = g s" and "\<And>x s. g (snd (f x s)) = g s"
  shows "g (snd (then_do m f s)) = g s"
  using assms by (auto simp: then_do_def split: prod.splits sum.splits) (metis snd_conv)+

lemma then_do_step:
  assumes "\<And>s. g (snd (m s)) = k (g s)" and "\<And>x s. g (snd (f x s)) = g s"
  shows "g (snd (then_do m f s)) = k (g s)"
  using assms by (auto simp: then_do_def split: prod.splits sum.splits) (metis snd_conv)+


lemma started_commands_append: "started_commands (xs @ ys) = started_commands xs @ started_commands ys"
  by (induction xs rule: started_commands.induct) simp_all

lemma client_ports_append: "client_ports (xs @ ys) = client_ports xs @ client_ports ys"
  by (induction xs rule: client_ports.induct) simp_all

lemma killed_append: "killed (xs @ ys) = killed xs @ killed ys"
  by (induction xs rule: killed.induct) simp_all

lemmas step_defs = rpc_def apply_settings_def logging_def float_div_def returns_def debug_def emit_def

lemma connect_client_ports:
  "client_ports (events (snd (connect w c p pid s))) = client_ports (events s) @ [p]"
  unfolding connect_def
  apply (rule then_do_step[where g = "\<lambda>s. client_ports (events s)" and k = "\<lambda>l. l @ [p]"])
   apply (simp add: step_defs client_ports_append split: option.splits sum.splits)
  apply (intro then_do_preserves)
              apply (simp_all add: step_defs client_ports_append split: option.splits sum.splits)
  done


lemma connect_error_indep:
  "fst (connect w c p pid s) = Inl e \<Longrightarrow> fst (connect w c p pid' s') = Inl e"
  by (auto simp: connect_def then_do_def step_defs split: option.splits sum.splits if_splits)

lemma connect_success:
  assumes "connect w c p pid s = (Inr r, s2)"
  shows "\<exists>dt. fps c \<noteq> 0 \<and> float_truediv w 1 (fps c) = Inr dt \<and>
         r = (Client ''localhost'' p, World (Client ''localhost'' p),
              apply_settings_frame w p True dt, pid) \<and>
         s2 = s\<lparr>events := events s @
           [Rpc p (NewClient ''localhost'' p), Rpc p (SetTimeout (client_timeout c)),
            Log (LoadingWorld (town c)), Rpc p (LoadWorld (town c)), Rpc p GetWorld,
            Rpc p (SetWeather ClearNoon), Rpc p (ApplySettings True dt),
            Rpc p GetServerVersion, Log ServerVersion, Rpc p GetClientVersion,
            Log ClientVersion]\<rparr>"
  using assms
  by (auto simp: connect_def then_do_def step_defs split: option.splits sum.splits if_splits)

lemmas run_defs = setup_py_def setup_loop.simps launch_def connect_def on_runtime_error_def
  prim_defs step_defs then_do_def server_command_def str_int_def Let_def

subsection \<open>The environment of the child\<close>










subsection \<open>The ports of a run\<close>

lemma on_runtime_error_client_ports:
  "client_ports (events (on_runtime_error w msg p pid s)) = client_ports (events s)"
  by (simp add: on_runtime_error_def prim_defs Let_def client_ports_append)

lemma on_runtime_error_started_commands:
  "started_commands (events (on_runtime_error w msg p pid s)) = started_commands (events s)"
  by (simp add: on_runtime_error_def prim_defs Let_def started_commands_append)

lemma connect_started_commands:
  "started_commands (events (snd (connect w c p pid s))) = started_commands (events s)"
  unfolding connect_def
  by (intro then_do_preserves) (simp_all add: step_defs started_commands_append split: option.splits sum.splits)

lemma launch_client_ports:
  assumes "dicts s \<noteq> []"
  shows "client_ports (events (snd (launch w c a s))) = client_ports (events s)"
  by (simp add: launch_eq[OF assms] Let_def client_ports_append split: option.splits sum.splits)

lemma launch_port:
  assumes "dicts s \<noteq> []" and "launch w c a s = (Inr (port, pid), s1)"
  shows "port = 2000 + a"
  using assms(2) by (simp add: launch_eq[OF assms(1)] Let_def split: option.splits sum.splits if_splits)

lemma launch_started_commands_ok:
  assumes "dicts s \<noteq> []" and "map_of (dicts s ! 0) ''CARLA_ROOT'' = Some carla_root"
    and "launch w c a s = (Inr (port, pid), s1)"
  shows "started_commands (events s1) = started_commands (events s) @ [server_command w carla_root (2000 + a)]"
  using assms(2,3)
  by (auto simp: launch_eq[OF assms(1)] Let_def started_commands_append split: option.splits sum.splits if_splits)

lemma launch_started_commands_fail:
  assumes "dicts s \<noteq> []" and "map_of (dicts s ! 0) ''CARLA_ROOT'' = Some carla_root"
    and "launch w c a s = (Inl e, s1)"
  shows "started_commands (events s1) = started_commands (events s) @ []
       \<or> started_commands (events s1) = started_commands (events s) @ [server_command w carla_root (2000 + a)]"
  using assms(2,3)
  by (auto simp: launch_eq[OF assms(1)] Let_def started_commands_append split: option.splits sum.splits if_splits)

lemma map_upt_shift:
  "f a # map (\<lambda>i. f (a + 1 + int i)) [0..<k] = map (\<lambda>i. f (a + int i)) [0..<Suc k]"
proof -
  have "map (\<lambda>i. f (a + int i)) [0..<Suc k] = f a # map (\<lambda>i. f (a + int i)) (map Suc [0..<k])"
    by (simp only: upt_conv_Cons[of 0 "Suc k"] map_Suc_upt[symmetric]) simp
  also have "map (\<lambda>i. f (a + int i)) (map Suc [0..<k]) = map (\<lambda>i. f (a + 1 + int i)) [0..<k]"
    by (simp add: comp_def algebra_simps)
  finally show ?thesis by simp
qed


lemma attempt_ports:
  assumes ne: "dicts s \<noteq> []" and root: "map_of (dicts s ! 0) ''CARLA_ROOT'' = Some carla_root"
    and L: "launch w c a (debug r s) = (Inr (port, pid), s1)"
    and C: "connect w c port pid (debug r' s1) = (x, s2)"
  shows "port = 2000 + a"
    and "client_ports (events s2) = client_ports (events s) @ [2000 + a]"
    and "started_commands (events s2) = started_commands (events s) @ [server_command w carla_root (2000 + a)]"
proof -
  have d: "dicts (debug r s) \<noteq> []" "map_of (dicts (debug r s) ! 0) ''CARLA_ROOT'' = Some carla_root"
    using ne root by (simp_all add: debug_def emit_def)
  show p: "port = 2000 + a" by (rule launch_port[OF d(1) L])
  have "client_ports (events s1) = client_ports (events s)"
    using launch_client_ports[OF d(1), of w c a] L by (simp add: debug_def emit_def client_ports_append)
  then show "client_ports (events s2) = client_ports (events s) @ [2000 + a]"
    using connect_client_ports[of w c port pid "debug r' s1"] C p
    by (simp add: debug_def emit_def client_ports_append)
  have "started_commands (events s1) = started_commands (events s) @ [server_command w carla_root (2000 + a)]"
    using launch_started_commands_ok[OF d L] by (simp add: debug_def emit_def started_commands_append)
  then show "started_commands (events s2) = started_commands (events s) @ [server_command w carla_root (2000 + a)]"
    using connect_started_commands[of w c port pid "debug r' s1"] C
    by (simp add: debug_def emit_def started_commands_append)
qed

lemma setup_loop_ports:
  "dicts s \<noteq> [] \<and> map_of (dicts s ! 0) ''CARLA_ROOT'' = Some carla_root \<longrightarrow>
     (\<exists>k k'. a + int k' \<le> max a (num_max_restarts c) \<and> k \<le> k' \<and> k' \<le> Suc k \<and>
        client_ports (events (snd (setup_loop w c a s)))
          = client_ports (events s) @ map (\<lambda>i. 2000 + (a + int i)) [0..<k] \<and>
        started_commands (events (snd (setup_loop w c a s)))
          = started_commands (events s) @ map (\<lambda>i. server_command w carla_root (2000 + (a + int i))) [0..<k'])"
proof (rule setup_loop_rule[where P = "\<lambda>a s res.
     dicts s \<noteq> [] \<and> map_of (dicts s ! 0) ''CARLA_ROOT'' = Some carla_root \<longrightarrow>
     (\<exists>k k'. a + int k' \<le> max a (num_max_restarts c) \<and> k \<le> k' \<and> k' \<le> Suc k \<and>
        client_ports (events (snd res))
          = client_ports (events s) @ map (\<lambda>i. 2000 + (a + int i)) [0..<k] \<and>
        started_commands (events (snd res))
          = started_commands (events s) @ map (\<lambda>i. server_command w carla_root (2000 + (a + int i))) [0..<k'])"],
    goal_cases)
  case (1 a s)
  show ?case
    by (intro impI exI[of _ 0]) (simp add: debug_def emit_def client_ports_append started_commands_append)
next
  case (2 a s e s1)
  show ?case
  proof
    assume A: "dicts s \<noteq> [] \<and> map_of (dicts s ! 0) ''CARLA_ROOT'' = Some carla_root"
    let ?s0 = "debug (AttemptOutOf (a + 1) (num_max_restarts c)) s"
    have d: "dicts ?s0 \<noteq> []" "map_of (dicts ?s0 ! 0) ''CARLA_ROOT'' = Some carla_root"
      using A by (simp_all add: debug_def emit_def)
    have cp: "client_ports (events s1) = client_ports (events s)"
      using launch_client_ports[OF d(1), of w c a] 2(2) by (simp add: debug_def emit_def client_ports_append)
    have sc: "started_commands (events s1) = started_commands (events s) @ []
       \<or> started_commands (events s1) = started_commands (events s) @ [server_command w carla_root (2000 + a)]"
      using launch_started_commands_fail[OF d 2(2)] by (simp add: debug_def emit_def started_commands_append)
    from sc show "\<exists>k k'. a + int k' \<le> max a (num_max_restarts c) \<and> k \<le> k' \<and> k' \<le> Suc k \<and>
        client_ports (events (snd (Inl e :: exn + ret, s1)))
          = client_ports (events s) @ map (\<lambda>i. 2000 + (a + int i)) [0..<k] \<and>
        started_commands (events (snd (Inl e :: exn + ret, s1)))
          = started_commands (events s) @ map (\<lambda>i. server_command w carla_root (2000 + (a + int i))) [0..<k']"
    proof
      assume "started_commands (events s1) = started_commands (events s) @ []"
      then show ?thesis using cp by (intro exI[of _ 0]) simp
    next
      assume "started_commands (events s1) = started_commands (events s) @ [server_command w carla_root (2000 + a)]"
      then show ?thesis using cp 2(1) by (intro exI[of _ 0] exI[of _ "Suc 0"]) simp
    qed
  qed
next
  case (3 a s port pid s1 r s2)
  show ?case
  proof
    assume A: "dicts s \<noteq> [] \<and> map_of (dicts s ! 0) ''CARLA_ROOT'' = Some carla_root"
    note P = attempt_ports[OF conjunct1[OF A] conjunct2[OF A] 3(2) 3(3)]
    show "\<exists>k k'. a + int k' \<le> max a (num_max_restarts c) \<and> k \<le> k' \<and> k' \<le> Suc k \<and>
        client_ports (events (snd (Inr r :: exn + ret, s2)))
          = client_ports (events s) @ map (\<lambda>i. 2000 + (a + int i)) [0..<k] \<and>
        started_commands (events (snd (Inr r :: exn + ret, s2)))
          = started_commands (events s) @ map (\<lambda>i. server_command w carla_root (2000 + (a + int i))) [0..<k']"
      using P(2,3) 3(1) by (intro exI[of _ "Suc 0"]) simp
  qed
next
  case (4 a s port pid s1 e s2)
  show ?case
  proof
    assume A: "dicts s \<noteq> [] \<and> map_of (dicts s ! 0) ''CARLA_ROOT'' = Some carla_root"
    note P = attempt_ports[OF conjunct1[OF A] conjunct2[OF A] 4(2) 4(3)]
    show "\<exists>k k'. a + int k' \<le> max a (num_max_restarts c) \<and> k \<le> k' \<and> k' \<le> Suc k \<and>
        client_ports (events (snd (Inl e :: exn + ret, s2)))
          = client_ports (events s) @ map (\<lambda>i. 2000 + (a + int i)) [0..<k] \<and>
        started_commands (events (snd (Inl e :: exn + ret, s2)))
          = started_commands (events s) @ map (\<lambda>i. server_command w carla_root (2000 + (a + int i))) [0..<k']"
      using P(2,3) 4(1) by (intro exI[of _ "Suc 0"]) simp
  qed
next
  case (5 a s port pid s1 msg s2)
  let ?s3 = "on_runtime_error w msg port pid s2"
  let ?res = "setup_loop w c (a + 1) ?s3"
  show ?case
  proof
    assume A: "dicts s \<noteq> [] \<and> map_of (dicts s ! 0) ''CARLA_ROOT'' = Some carla_root"
    note P = attempt_ports[OF conjunct1[OF A] conjunct2[OF A] 5(2) 5(3)]
    have d3: "dicts ?s3 \<noteq> []" "dicts ?s3 ! 0 = dicts s ! 0"
      using attempt_dicts[OF conjunct1[OF A] 5(2) 5(3)] by (simp_all add: on_runtime_error_dicts)
    have e3: "client_ports (events ?s3) = client_ports (events s) @ [2000 + a]"
      "started_commands (events ?s3) = started_commands (events s) @ [server_command w carla_root (2000 + a)]"
      using P(2,3) by (simp_all add: on_runtime_error_client_ports on_runtime_error_started_commands)
    obtain k k' where K: "a + 1 + int k' \<le> max (a + 1) (num_max_restarts c)" "k \<le> k'" "k' \<le> Suc k"
      "client_ports (events (snd ?res)) = client_ports (events ?s3) @ map (\<lambda>i. 2000 + (a + 1 + int i)) [0..<k]"
      "started_commands (events (snd ?res))
         = started_commands (events ?s3) @ map (\<lambda>i. server_command w carla_root (2000 + (a + 1 + int i))) [0..<k']"
      using 5(4) d3 A by auto
    have c1: "client_ports (events (snd ?res))
        = client_ports (events s) @ map (\<lambda>i. 2000 + (a + int i)) [0..<Suc k]"
      using K(4) e3(1) map_upt_shift[of "\<lambda>j. 2000 + j" a k] by simp
    have c2: "started_commands (events (snd ?res))
        = started_commands (events s) @ map (\<lambda>i. server_command w carla_root (2000 + (a + int i))) [0..<Suc k']"
      using K(5) e3(2) map_upt_shift[of "\<lambda>j. server_command w carla_root (2000 + j)" a k'] by simp
    have b: "a + int (Suc k') \<le> max a (num_max_restarts c)" using K(1) 5(1) by simp
    show "\<exists>k k'. a + int k' \<le> max a (num_max_restarts c) \<and> k \<le> k' \<and> k' \<le> Suc k \<and>
        client_ports (events (snd ?res))
          = client_ports (events s) @ map (\<lambda>i. 2000 + (a + int i)) [0..<k] \<and>
        started_commands (events (snd ?res))
          = started_commands (events s) @ map (\<lambda>i. server_command w carla_root (2000 + (a + int i))) [0..<k']"
      using c1 c2 b K(2,3) by (intro exI[of _ "Suc k"] exI[of _ "Suc k'"]) simp
  qed
qed


lemma ports_strictly_increasing:
  "sorted_wrt (<) (map (\<lambda>i. 2000 + int i) [0..<k]) \<and> distinct (map (\<lambda>i. 2000 + int i) [0..<k])"
  by (simp add: sorted_wrt_map distinct_map inj_on_def)

subsection \<open>The successful attempt\<close>

lemma connect_server: "server (snd (connect w c p pid s)) = server s"
  unfolding connect_def
  by (intro then_do_preserves) (simp_all add: step_defs split: option.splits sum.splits)

lemma launch_server:
  assumes "dicts s \<noteq> []" and "launch w c a s = (Inr (port, pid), s1)"
  shows "server s1 = Some pid"
  using assms(2)
  by (auto simp: launch_eq[OF assms(1)] Let_def split: option.splits sum.splits if_splits)

lemma setup_loop_returns:
  "dicts s \<noteq> [] \<longrightarrow> (\<forall>cl wd frame pid. fst (setup_loop w c a s) = Inr (cl, wd, frame, pid) \<longrightarrow>
     (\<exists>port dt evs. cl = Client ''localhost'' port \<and> wd = World cl \<and>
        fps c \<noteq> 0 \<and> float_truediv w 1 (fps c) = Inr dt \<and>
        frame = apply_settings_frame w port True dt \<and>
        server (snd (setup_loop w c a s)) = Some pid \<and>
        events (snd (setup_loop w c a s)) = evs @
          [Rpc port (NewClient ''localhost'' port), Rpc port (SetTimeout (client_timeout c)),
           Log (LoadingWorld (town c)), Rpc port (LoadWorld (town c)), Rpc port GetWorld,
           Rpc port (SetWeather ClearNoon), Rpc port (ApplySettings True dt),
           Rpc port GetServerVersion, Log ServerVersion, Rpc port GetClientVersion,
           Log ClientVersion]))"
proof (rule setup_loop_rule[where P = "\<lambda>a s res. dicts s \<noteq> [] \<longrightarrow>
    (\<forall>cl wd frame pid. fst res = Inr (cl, wd, frame, pid) \<longrightarrow>
     (\<exists>port dt evs. cl = Client ''localhost'' port \<and> wd = World cl \<and>
        fps c \<noteq> 0 \<and> float_truediv w 1 (fps c) = Inr dt \<and>
        frame = apply_settings_frame w port True dt \<and>
        server (snd res) = Some pid \<and>
        events (snd res) = evs @
          [Rpc port (NewClient ''localhost'' port), Rpc port (SetTimeout (client_timeout c)),
           Log (LoadingWorld (town c)), Rpc port (LoadWorld (town c)), Rpc port GetWorld,
           Rpc port (SetWeather ClearNoon), Rpc port (ApplySettings True dt),
           Rpc port GetServerVersion, Log ServerVersion, Rpc port GetClientVersion,
           Log ClientVersion]))"], goal_cases)
  case (1 a s)
  show ?case by simp
next
  case (2 a s e s1)
  show ?case by simp
next
  case (3 a s port pid s1 r s2)
  show ?case
  proof (intro impI allI)
    fix cl wd frame pid'
    assume ne: "dicts s \<noteq> []" and "fst (Inr r :: exn + ret, s2) = Inr (cl, wd, frame, pid')"
    then have r: "r = (cl, wd, frame, pid')" by simp
    have d: "dicts (debug (AttemptOutOf (a + 1) (num_max_restarts c)) s) \<noteq> []"
      using ne by (simp add: debug_def emit_def)
    have sv: "server s1 = Some pid" by (rule launch_server[OF d 3(2)])
    obtain dt where S: "fps c \<noteq> 0" "float_truediv w 1 (fps c) = Inr dt"
      "r = (Client ''localhost'' port, World (Client ''localhost'' port),
            apply_settings_frame w port True dt, pid)"
      "s2 = (debug (ConnectsClient port) s1)\<lparr>events := events (debug (ConnectsClient port) s1) @
          [Rpc port (NewClient ''localhost'' port), Rpc port (SetTimeout (client_timeout c)),
           Log (LoadingWorld (town c)), Rpc port (LoadWorld (town c)), Rpc port GetWorld,
           Rpc port (SetWeather ClearNoon), Rpc port (ApplySettings True dt),
           Rpc port GetServerVersion, Log ServerVersion, Rpc port GetClientVersion,
           Log ClientVersion]\<rparr>"
      using connect_success[OF 3(3)] by blast
    have "cl = Client ''localhost'' port" "wd = World cl"
      "frame = apply_settings_frame w port True dt" "pid' = pid"
      using S(3) r by simp_all
    moreover have "server s2 = Some pid'"
      using S(4) sv \<open>pid' = pid\<close> by (simp add: debug_def emit_def)
    moreover have "events s2 = (events s1 @ [Log (ConnectsClient port)]) @
          [Rpc port (NewClient ''localhost'' port), Rpc port (SetTimeout (client_timeout c)),
           Log (LoadingWorld (town c)), Rpc port (LoadWorld (town c)), Rpc port GetWorld,
           Rpc port (SetWeather ClearNoon), Rpc port (ApplySettings True dt),
           Rpc port GetServerVersion, Log ServerVersion, Rpc port GetClientVersion,
           Log ClientVersion]"
      using S(4) by (simp add: debug_def emit_def)
    ultimately show "\<exists>port dt evs. cl = Client ''localhost'' port \<and> wd = World cl \<and>
        fps c \<noteq> 0 \<and> float_truediv w 1 (fps c) = Inr dt \<and>
        frame = apply_settings_frame w port True dt \<and>
        server (snd (Inr r :: exn + ret, s2)) = Some pid' \<and>
        events (snd (Inr r :: exn + ret, s2)) = evs @
          [Rpc port (NewClient ''localhost'' port), Rpc port (SetTimeout (client_timeout c)),
           Log (LoadingWorld (town c)), Rpc port (LoadWorld (town c)), Rpc port GetWorld,
           Rpc port (SetWeather ClearNoon), Rpc port (ApplySettings True dt),
           Rpc port GetServerVersion, Log ServerVersion, Rpc port GetClientVersion,
           Log ClientVersion]"
      using S(1,2)
      by (intro exI[of _ port] exI[of _ dt] exI[of _ "events s1 @ [Log (ConnectsClient port)]"]) simp
  qed
next
  case (4 a s port pid s1 e s2)
  show ?case by simp
next
  case (5 a s port pid s1 msg s2)
  have "dicts s \<noteq> [] \<Longrightarrow> dicts (on_runtime_error w msg port pid s2) \<noteq> []"
    using attempt_dicts[OF _ 5(2) 5(3)] by (simp add: on_runtime_error_dicts)
  then show ?case using 5(4) by blast
qed

subsection \<open>Running out of attempts\<close>

lemma shell_program_environ:
  "dicts s ! 0 = dicts s' ! 0 \<Longrightarrow> shell_program w s = shell_program w s'"
  by (simp add: shell_program_def dict_get_def os_environ_def)

lemma launch_succeeds:
  assumes "dicts s \<noteq> []" and "map_of (dicts s ! 0) ''CARLA_ROOT'' = Some carla_root"
    and "spawn w (shell_program w s) (server_command w carla_root (2000 + a)) = Inr pid"
    and "0 \<le> server_timestop c"
  shows "fst (launch w c a s) = Inr (2000 + a, pid)"
  using assms(2-4) by (simp add: launch_eq[OF assms(1)] Let_def)

lemma setup_loop_exhausts:
  assumes ts: "0 \<le> server_timestop c"
    and sp: "\<And>i. 0 \<le> i \<Longrightarrow> i < num_max_restarts c \<Longrightarrow>
               \<exists>pid. spawn w (shell_program w s0) (server_command w carla_root (2000 + i)) = Inr pid"
    and cf: "\<And>i. 0 \<le> i \<Longrightarrow> i < num_max_restarts c \<Longrightarrow>
               \<exists>msg. fst (connect w c (2000 + i) 0 s0) = Inl (RuntimeError msg)"
  shows "0 \<le> a \<and> dicts s \<noteq> [] \<and> dicts s ! 0 = dicts s0 ! 0
           \<and> map_of (dicts s0 ! 0) ''CARLA_ROOT'' = Some carla_root \<longrightarrow>
     fst (setup_loop w c a s) = Inl (SystemExit None) \<and>
     started_commands (events (snd (setup_loop w c a s)))
       = started_commands (events s)
           @ map (\<lambda>i. server_command w carla_root (2000 + (a + int i))) [0..<nat (num_max_restarts c - a)] \<and>
     (\<exists>evs. events (snd (setup_loop w c a s)) = evs @ [Log (FailedToConnect (num_max_restarts c))])"
proof (rule setup_loop_rule[where P = "\<lambda>a s res.
     0 \<le> a \<and> dicts s \<noteq> [] \<and> dicts s ! 0 = dicts s0 ! 0
           \<and> map_of (dicts s0 ! 0) ''CARLA_ROOT'' = Some carla_root \<longrightarrow>
     fst res = Inl (SystemExit None) \<and>
     started_commands (events (snd res))
       = started_commands (events s)
           @ map (\<lambda>i. server_command w carla_root (2000 + (a + int i))) [0..<nat (num_max_restarts c - a)] \<and>
     (\<exists>evs. events (snd res) = evs @ [Log (FailedToConnect (num_max_restarts c))])"], goal_cases)
  case (1 a s)
  then show ?case by (simp add: debug_def emit_def started_commands_append)
next
  case (2 a s e s1)
  let ?s = "debug (AttemptOutOf (a + 1) (num_max_restarts c)) s"
  show ?case
  proof
    assume A: "0 \<le> a \<and> dicts s \<noteq> [] \<and> dicts s ! 0 = dicts s0 ! 0
           \<and> map_of (dicts s0 ! 0) ''CARLA_ROOT'' = Some carla_root"
    then have d: "dicts ?s \<noteq> []" "map_of (dicts ?s ! 0) ''CARLA_ROOT'' = Some carla_root"
      "dicts ?s ! 0 = dicts s0 ! 0"
      by (simp_all add: debug_def emit_def)
    obtain pid where "spawn w (shell_program w s0) (server_command w carla_root (2000 + a)) = Inr pid"
      using sp[of a] A 2(1) by blast
    then have "spawn w (shell_program w ?s) (server_command w carla_root (2000 + a)) = Inr pid"
      using shell_program_environ[OF d(3), of w] by simp
    from launch_succeeds[OF d(1,2) this ts] 2(2) have False by simp
    then show "fst (Inl e :: exn + ret, s1) = Inl (SystemExit None) \<and>
     started_commands (events (snd (Inl e :: exn + ret, s1)))
       = started_commands (events s)
           @ map (\<lambda>i. server_command w carla_root (2000 + (a + int i))) [0..<nat (num_max_restarts c - a)] \<and>
     (\<exists>evs. events (snd (Inl e :: exn + ret, s1)) = evs @ [Log (FailedToConnect (num_max_restarts c))])" ..
  qed
next
  case (3 a s port pid s1 r s2)
  show ?case
  proof
    assume A: "0 \<le> a \<and> dicts s \<noteq> [] \<and> dicts s ! 0 = dicts s0 ! 0
           \<and> map_of (dicts s0 ! 0) ''CARLA_ROOT'' = Some carla_root"
    then have d: "dicts (debug (AttemptOutOf (a + 1) (num_max_restarts c)) s) \<noteq> []"
      by (simp add: debug_def emit_def)
    have p: "port = 2000 + a" by (rule launch_port[OF d 3(2)])
    obtain msg where "fst (connect w c (2000 + a) 0 s0) = Inl (RuntimeError msg)"
      using cf[of a] A 3(1) by blast
    from connect_error_indep[OF this, of pid "debug (ConnectsClient port) s1"] 3(3) p
    have False by simp
    then show "fst (Inr r :: exn + ret, s2) = Inl (SystemExit None) \<and>
     started_commands (events (snd (Inr r :: exn + ret, s2)))
       = started_commands (events s)
           @ map (\<lambda>i. server_command w carla_root (2000 + (a + int i))) [0..<nat (num_max_restarts c - a)] \<and>
     (\<exists>evs. events (snd (Inr r :: exn + ret, s2)) = evs @ [Log (FailedToConnect (num_max_restarts c))])" ..
  qed
next
  case (4 a s port pid s1 e s2)
  show ?case
  proof
    assume A: "0 \<le> a \<and> dicts s \<noteq> [] \<and> dicts s ! 0 = dicts s0 ! 0
           \<and> map_of (dicts s0 ! 0) ''CARLA_ROOT'' = Some carla_root"
    then have d: "dicts (debug (AttemptOutOf (a + 1) (num_max_restarts c)) s) \<noteq> []"
      by (simp add: debug_def emit_def)
    have p: "port = 2000 + a" by (rule launch_port[OF d 4(2)])
    obtain msg where "fst (connect w c (2000 + a) 0 s0) = Inl (RuntimeError msg)"
      using cf[of a] A 4(1) by blast
    from connect_error_indep[OF this, of pid "debug (ConnectsClient port) s1"] 4(3) 4(4) p
    have False by simp
    then show "fst (Inl e :: exn + ret, s2) = Inl (SystemExit None) \<and>
     started_commands (events (snd (Inl e :: exn + ret, s2)))
       = started_commands (events s)
           @ map (\<lambda>i. server_command w carla_root (2000 + (a + int i))) [0..<nat (num_max_restarts c - a)] \<and>
     (\<exists>evs. events (snd (Inl e :: exn + ret, s2)) = evs @ [Log (FailedToConnect (num_max_restarts c))])" ..
  qed
next
  case (5 a s port pid s1 msg s2)
  let ?s3 = "on_runtime_error w msg port pid s2"
  let ?res = "setup_loop w c (a + 1) ?s3"
  show ?case
  proof
    assume A: "0 \<le> a \<and> dicts s \<noteq> [] \<and> dicts s ! 0 = dicts s0 ! 0
           \<and> map_of (dicts s0 ! 0) ''CARLA_ROOT'' = Some carla_root"
    then have ne: "dicts s \<noteq> []" and root: "map_of (dicts s ! 0) ''CARLA_ROOT'' = Some carla_root"
      by simp_all
    have d3: "dicts ?s3 \<noteq> []" "dicts ?s3 ! 0 = dicts s0 ! 0"
      using attempt_dicts[OF ne 5(2) 5(3)] A by (simp_all add: on_runtime_error_dicts)
    note P = attempt_ports[OF ne root 5(2) 5(3)]
    have e3: "started_commands (events ?s3)
        = started_commands (events s) @ [server_command w carla_root (2000 + a)]"
      using P(3) by (simp add: on_runtime_error_started_commands)
    have IH: "fst ?res = Inl (SystemExit None)"
      "started_commands (events (snd ?res)) = started_commands (events ?s3)
           @ map (\<lambda>i. server_command w carla_root (2000 + (a + 1 + int i)))
               [0..<nat (num_max_restarts c - (a + 1))]"
      "\<exists>evs. events (snd ?res) = evs @ [Log (FailedToConnect (num_max_restarts c))]"
      using 5(4) d3 A by simp_all
    have n: "nat (num_max_restarts c - a) = Suc (nat (num_max_restarts c - (a + 1)))"
      using 5(1) by simp
    have "started_commands (events (snd ?res)) = started_commands (events s)
           @ map (\<lambda>i. server_command w carla_root (2000 + (a + int i))) [0..<nat (num_max_restarts c - a)]"
      unfolding n
      using IH(2) e3
        map_upt_shift[of "\<lambda>j. server_command w carla_root (2000 + j)" a "nat (num_max_restarts c - (a + 1))"]
      by simp
    then show "fst ?res = Inl (SystemExit None) \<and>
     started_commands (events (snd ?res))
       = started_commands (events s)
           @ map (\<lambda>i. server_command w carla_root (2000 + (a + int i))) [0..<nat (num_max_restarts c - a)] \<and>
     (\<exists>evs. events (snd ?res) = evs @ [Log (FailedToConnect (num_max_restarts c))])"
      using IH(1,3) by simp
  qed
qed

subsection \<open>The handler\<close>


lemma on_runtime_error_exitfuncs:
  assumes "\<And>k args. next_object s \<le> k \<Longrightarrow> (Lambda k, args) \<notin> set (exitfuncs s)"
  shows "exitfuncs (on_runtime_error w msg port pid s) = exitfuncs s"
proof -
  have "filter (\<lambda>(g, args). g \<noteq> Lambda (next_object s)) (exitfuncs s) = exitfuncs s"
    using assms[of "next_object s"] by (intro filter_True) auto
  then show ?thesis by (simp add: on_runtime_error_def prim_defs Let_def)
qed

section \<open>The claims\<close>

text \<open>
  C6.  A town outside \<open>Town01\<close> to \<open>Town05\<close> fails the assertion of line 43: the call
  raises \<open>AssertionError\<close> and leaves the state as it was, so nothing is logged, no
  attempt is counted and no process is started.
\<close>

theorem C6_town_rejected_before_spawn:
  assumes "town c \<notin> {''Town01'', ''Town02'', ''Town03'', ''Town04'', ''Town05''}"
  shows "setup_py w c s = (Inl AssertionError, s)"
  using assms by (simp add: setup_py_def)

theorem C6_town_rejected_witness:
  "town (defaults ''Town10'') \<notin> {''Town01'', ''Town02'', ''Town03'', ''Town04'', ''Town05''}
   \<and> setup_py posix_up (defaults ''Town10'') boot = (Inl AssertionError, boot)"
proof -
  have h: "town (defaults ''Town10'') \<notin> {''Town01'', ''Town02'', ''Town03'', ''Town04'', ''Town05''}"
    by (simp add: defaults_def)
  show ?thesis using h C6_town_rejected_before_spawn[OF h, of posix_up boot] by simp
qed

text \<open>
  C10.  \<open>setup\<close> writes the two overrides into the dict made by \<open>os.environ.copy()\<close>,
  never into \<open>os.environ\<close> itself: whatever the outcome (a return, an exception or
  \<open>sys.exit\<close>), the dict at the address of \<open>os.environ\<close> is the one the call started with.
\<close>

theorem C10_os_environ_unchanged:
  assumes "dicts s \<noteq> []"
  shows "dicts (snd (setup_py w c s)) ! os_environ = dicts s ! os_environ"
  using assms setup_loop_environ[of s w c 0] by (simp add: setup_py_def os_environ_def)

theorem C10_os_environ_unchanged_witness:
  "dicts boot \<noteq> [] \<and>
   dicts (snd (setup_py posix_down (defaults ''Town04'') boot)) ! os_environ
     = [(''CARLA_ROOT'', ''/opt/carla''), (''DISPLAY'', '':0'')]"
proof -
  have h: "dicts boot \<noteq> []" by (simp add: boot_def)
  show ?thesis
    using h C10_os_environ_unchanged[OF h, of posix_down "defaults ''Town04''"]
    by (simp add: boot_def os_environ_def)
qed




text \<open>
  C3.  Attempt \<open>i\<close> of a run uses port \<open>2000 + i\<close>: the clients of a run are pointed
  at the ports \<open>2000, 2001, ...\<close> in this order, and the command lines handed to the
  shell carry the same ports (\<open>k'\<close> may be one more than \<open>k\<close>: the warm-up sleep can
  fail after the process was started).  No more than \<open>num_max_restarts\<close> ports are
  used; they strictly increase, so none is used twice.
\<close>

theorem C3_port_is_base_plus_attempt:
  assumes "dicts s \<noteq> []" and "dict_get os_environ ''CARLA_ROOT'' s = Some carla_root"
  shows "\<exists>k k'. int k' \<le> max 0 (num_max_restarts c) \<and> k \<le> k' \<and> k' \<le> Suc k \<and>
      client_ports (events (snd (setup_py w c s)))
        = client_ports (events s) @ map (\<lambda>i. 2000 + int i) [0..<k] \<and>
      started_commands (events (snd (setup_py w c s)))
        = started_commands (events s) @ map (\<lambda>i. server_command w carla_root (2000 + int i)) [0..<k'] \<and>
      sorted_wrt (<) (map (\<lambda>i. 2000 + int i) [0..<k']) \<and>
      distinct (map (\<lambda>i. 2000 + int i) [0..<k'])"
proof (cases "town c \<in> set [''Town01'', ''Town02'', ''Town03'', ''Town04'', ''Town05'']")
  case True
  obtain k k' where "0 + int k' \<le> max 0 (num_max_restarts c)" "k \<le> k'" "k' \<le> Suc k"
    "client_ports (events (snd (setup_loop w c 0 s)))
       = client_ports (events s) @ map (\<lambda>i. 2000 + (0 + int i)) [0..<k]"
    "started_commands (events (snd (setup_loop w c 0 s)))
       = started_commands (events s) @ map (\<lambda>i. server_command w carla_root (2000 + (0 + int i))) [0..<k']"
    using setup_loop_ports[of s carla_root 0 c w] assms by (auto simp: dict_get_def os_environ_def)
  then show ?thesis
    using True ports_strictly_increasing[of k']
    by (intro exI[of _ k] exI[of _ k']) (simp add: setup_py_def)
next
  case False
  then have "setup_py w c s = (Inl AssertionError, s)" by (simp add: setup_py_def)
  then show ?thesis by (intro exI[of _ 0]) simp
qed

theorem C3_port_is_base_plus_attempt_witness:
  "dicts boot \<noteq> [] \<and> dict_get os_environ ''CARLA_ROOT'' boot = Some ''/opt/carla'' \<and>
   client_ports (events (snd (setup_py posix_down ((defaults ''Town02'')\<lparr>num_max_restarts := 2\<rparr>) boot)))
     = [2000, 2001] \<and>
   (\<exists>k k'. int k' \<le> max 0 (num_max_restarts ((defaults ''Town02'')\<lparr>num_max_restarts := 2\<rparr>)) \<and>
      k \<le> k' \<and> k' \<le> Suc k \<and>
      client_ports (events (snd (setup_py posix_down ((defaults ''Town02'')\<lparr>num_max_restarts := 2\<rparr>) boot)))
        = client_ports (events boot) @ map (\<lambda>i. 2000 + int i) [0..<k] \<and>
      started_commands (events (snd (setup_py posix_down ((defaults ''Town02'')\<lparr>num_max_restarts := 2\<rparr>) boot)))
        = started_commands (events boot)
            @ map (\<lambda>i. server_command posix_down ''/opt/carla'' (2000 + int i)) [0..<k'] \<and>
      sorted_wrt (<) (map (\<lambda>i. 2000 + int i) [0..<k']) \<and>
      distinct (map (\<lambda>i. 2000 + int i) [0..<k']))"
proof -
  have h1: "dicts boot \<noteq> []" by (simp add: boot_def)
  have h2: "dict_get os_environ ''CARLA_ROOT'' boot = Some ''/opt/carla''"
    by (simp add: boot_def dict_get_def os_environ_def)
  have run: "client_ports (events (snd (setup_py posix_down ((defaults ''Town02'')\<lparr>num_max_restarts := 2\<rparr>) boot)))
     = [2000, 2001]"
    by (simp add: run_defs posix_down_def boot_def defaults_def
        cong: sum.case_cong_weak prod.case_cong_weak option.case_cong_weak)
  show ?thesis
    using h1 h2 run
      C3_port_is_base_plus_attempt[OF h1 h2, of "(defaults ''Town02'')\<lparr>num_max_restarts := 2\<rparr>" posix_down]
    by blast
qed

text \<open>
  C7.  When \<open>setup\<close> returns, the last thing it did was the try block of the successful
  attempt, run to its end: the world was loaded, the weather set, and \<open>apply_settings\<close>
  was called with \<open>synchronous_mode=True\<close> and with \<open>fixed_delta_seconds\<close> the float
  that \<open>1.0 / fps\<close> gives (\<open>fps\<close> is not \<open>0\<close> and the division did not raise, or there
  would be no result).  The frame that this call returned is the third component of the
  result, next to the client, its world and the server process of this attempt.
\<close>

theorem C7_success_configures_and_returns:
  assumes "dicts s \<noteq> []" and "setup_py w c s = (Inr (cl, wd, frame, pid), s')"
  shows "\<exists>port dt evs. cl = Client ''localhost'' port \<and> wd = World cl \<and>
        fps c \<noteq> 0 \<and> float_truediv w 1 (fps c) = Inr dt \<and>
        frame = apply_settings_frame w port True dt \<and>
        server s' = Some pid \<and>
        events s' = evs @
          [Rpc port (NewClient ''localhost'' port), Rpc port (SetTimeout (client_timeout c)),
           Log (LoadingWorld (town c)), Rpc port (LoadWorld (town c)), Rpc port GetWorld,
           Rpc port (SetWeather ClearNoon), Rpc port (ApplySettings True dt),
           Rpc port GetServerVersion, Log ServerVersion, Rpc port GetClientVersion,
           Log ClientVersion]"
proof -
  have "setup_loop w c 0 s = (Inr (cl, wd, frame, pid), s')"
    using assms(2) by (simp add: setup_py_def split: if_splits)
  then show ?thesis using setup_loop_returns[of s w c 0] assms(1) by simp
qed

theorem C7_success_configures_and_returns_witness:
  "fst (setup_py posix_up (defaults ''Town03'') boot)
     = Inr (Client ''localhost'' 2000, World (Client ''localhost'' 2000), 7, 6958) \<and>
   (\<exists>evs. events (snd (setup_py posix_up (defaults ''Town03'') boot)) = evs @
          [Rpc 2000 (NewClient ''localhost'' 2000), Rpc 2000 (SetTimeout 20),
           Log (LoadingWorld ''Town03''), Rpc 2000 (LoadWorld ''Town03''),
           Rpc 2000 GetWorld, Rpc 2000 (SetWeather ClearNoon),
           Rpc 2000 (ApplySettings True (3602879701896397 / 72057594037927936)),
           Rpc 2000 GetServerVersion, Log ServerVersion, Rpc 2000 GetClientVersion,
           Log ClientVersion])"
proof -
  let ?c = "defaults ''Town03''"
  have h: "dicts boot \<noteq> []" by (simp add: boot_def)
  have run: "fst (setup_py posix_up ?c boot)
     = Inr (Client ''localhost'' 2000, World (Client ''localhost'' 2000), 7, 6958)"
    by (simp add: run_defs posix_up_def posix_down_def boot_def defaults_def
        cong: sum.case_cong_weak prod.case_cong_weak option.case_cong_weak)
  then have eq: "setup_py posix_up ?c boot
     = (Inr (Client ''localhost'' 2000, World (Client ''localhost'' 2000), 7, 6958),
        snd (setup_py posix_up ?c boot))"
    by (simp add: prod_eq_iff)
  obtain port dt evs where T: "Client ''localhost'' 2000 = Client ''localhost'' port"
    "float_truediv posix_up 1 (fps ?c) = Inr dt"
    "events (snd (setup_py posix_up ?c boot)) = evs @
          [Rpc port (NewClient ''localhost'' port), Rpc port (SetTimeout (client_timeout ?c)),
           Log (LoadingWorld (town ?c)), Rpc port (LoadWorld (town ?c)), Rpc port GetWorld,
           Rpc port (SetWeather ClearNoon), Rpc port (ApplySettings True dt),
           Rpc port GetServerVersion, Log ServerVersion, Rpc port GetClientVersion,
           Log ClientVersion]"
    using C7_success_configures_and_returns[OF h eq] by blast
  have p: "port = 2000" using T(1) by simp
  have d: "dt = 3602879701896397 / 72057594037927936"
    using T(2) by (simp add: posix_up_def posix_down_def defaults_def)
  have "events (snd (setup_py posix_up ?c boot)) = evs @
          [Rpc 2000 (NewClient ''localhost'' 2000), Rpc 2000 (SetTimeout 20),
           Log (LoadingWorld ''Town03''), Rpc 2000 (LoadWorld ''Town03''),
           Rpc 2000 GetWorld, Rpc 2000 (SetWeather ClearNoon),
           Rpc 2000 (ApplySettings True (3602879701896397 / 72057594037927936)),
           Rpc 2000 GetServerVersion, Log ServerVersion, Rpc 2000 GetClientVersion,
           Log ClientVersion]"
    using T(3) unfolding p d by (simp add: defaults_def)
  then show ?thesis using run by blast
qed

text \<open>
  C2.  When every one of the \<open>num_max_restarts\<close> attempts starts its server and fails in
  the try block with a \<open>RuntimeError\<close>, \<open>setup\<close> starts exactly that many servers (on
  the ports \<open>2000, 2001, ...\<close>), logs that it failed to connect and calls \<open>sys.exit()\<close>:
  it neither retries further nor returns.  \<open>sys.exit\<close> is called without an argument, so
  what ends the program is \<open>SystemExit(None)\<close>, whose exit status is \<open>0\<close>: the status
  does not signal a failure, which is where the code differs from the claim (see the
  counterexample below).
\<close>

theorem C2_exhaustion_exits_with_status_zero:
  assumes "town c \<in> {''Town01'', ''Town02'', ''Town03'', ''Town04'', ''Town05''}"
    and "dicts s \<noteq> []" and "dict_get os_environ ''CARLA_ROOT'' s = Some carla_root"
    and "0 \<le> server_timestop c"
    and "\<forall>i. 0 \<le> i \<and> i < num_max_restarts c \<longrightarrow>
           (\<exists>pid. spawn w (shell_program w s) (server_command w carla_root (2000 + i)) = Inr pid)"
    and "\<forall>i. 0 \<le> i \<and> i < num_max_restarts c \<longrightarrow>
           (\<exists>msg. fst (connect w c (2000 + i) 0 s) = Inl (RuntimeError msg))"
  shows "fst (setup_py w c s) = Inl (SystemExit None) \<and>
     exit_status (SystemExit None) = 0 \<and>
     started_commands (events (snd (setup_py w c s)))
       = started_commands (events s)
           @ map (\<lambda>i. server_command w carla_root (2000 + int i)) [0..<nat (num_max_restarts c)] \<and>
     (\<exists>evs. events (snd (setup_py w c s)) = evs @ [Log (FailedToConnect (num_max_restarts c))])"
proof -
  have "fst (setup_loop w c 0 s) = Inl (SystemExit None) \<and>
     started_commands (events (snd (setup_loop w c 0 s)))
       = started_commands (events s)
           @ map (\<lambda>i. server_command w carla_root (2000 + (0 + int i))) [0..<nat (num_max_restarts c - 0)] \<and>
     (\<exists>evs. events (snd (setup_loop w c 0 s)) = evs @ [Log (FailedToConnect (num_max_restarts c))])"
    using setup_loop_exhausts[of c w s carla_root 0 s] assms(2-6)
    by (simp add: dict_get_def os_environ_def)
  then show ?thesis using assms(1) by (simp add: setup_py_def)
qed

theorem C2_exhaustion_exits_with_status_zero_witness:
  "fst (setup_py posix_down ((defaults ''Town04'')\<lparr>num_max_restarts := 2\<rparr>) boot) = Inl (SystemExit None) \<and>
   started_commands (events (snd (setup_py posix_down ((defaults ''Town04'')\<lparr>num_max_restarts := 2\<rparr>) boot)))
     = [''DISPLAY= /opt/carla/CarlaUE4.sh -opengl  -carla-rpc-port=2000 -quality-level=Epic '',
        ''DISPLAY= /opt/carla/CarlaUE4.sh -opengl  -carla-rpc-port=2001 -quality-level=Epic ''] \<and>
   (\<exists>evs. events (snd (setup_py posix_down ((defaults ''Town04'')\<lparr>num_max_restarts := 2\<rparr>) boot))
      = evs @ [Log (FailedToConnect 2)])"
proof -
  let ?c = "(defaults ''Town04'')\<lparr>num_max_restarts := 2\<rparr>"
  have h1: "town ?c \<in> {''Town01'', ''Town02'', ''Town03'', ''Town04'', ''Town05''}"
    by (simp add: defaults_def)
  have h2: "dicts boot \<noteq> []" by (simp add: boot_def)
  have h3: "dict_get os_environ ''CARLA_ROOT'' boot = Some ''/opt/carla''"
    by (simp add: boot_def dict_get_def os_environ_def)
  have h4: "0 \<le> server_timestop ?c" by (simp add: defaults_def)
  have h5: "\<forall>i. 0 \<le> i \<and> i < num_max_restarts ?c \<longrightarrow>
      (\<exists>pid. spawn posix_down (shell_program posix_down boot)
                (server_command posix_down ''/opt/carla'' (2000 + i)) = Inr pid)"
    by (simp add: posix_down_def)
  have h6: "\<forall>i. 0 \<le> i \<and> i < num_max_restarts ?c \<longrightarrow>
      (\<exists>msg. fst (connect posix_down ?c (2000 + i) 0 boot) = Inl (RuntimeError msg))"
    by (simp add: connect_def then_do_def step_defs posix_down_def)
  note T = C2_exhaustion_exits_with_status_zero[OF h1 h2 h3 h4 h5 h6]
  have n: "[0..<nat (num_max_restarts ?c)] = [0, Suc 0]"
    by (simp add: defaults_def upt_conv_Cons)
  have cmds: "map (\<lambda>i. server_command posix_down ''/opt/carla'' (2000 + int i)) [0, Suc 0]
     = [''DISPLAY= /opt/carla/CarlaUE4.sh -opengl  -carla-rpc-port=2000 -quality-level=Epic '',
        ''DISPLAY= /opt/carla/CarlaUE4.sh -opengl  -carla-rpc-port=2001 -quality-level=Epic '']"
    by (simp add: server_command_def posix_down_def str_int_def)
  have b: "started_commands (events boot) = []" by (simp add: boot_def)
  have k: "num_max_restarts ?c = 2" by (simp add: defaults_def)
  from T have "fst (setup_py posix_down ?c boot) = Inl (SystemExit None)" by (rule conjunct1)
  moreover from T have "started_commands (events (snd (setup_py posix_down ?c boot)))
     = [''DISPLAY= /opt/carla/CarlaUE4.sh -opengl  -carla-rpc-port=2000 -quality-level=Epic '',
        ''DISPLAY= /opt/carla/CarlaUE4.sh -opengl  -carla-rpc-port=2001 -quality-level=Epic '']"
    unfolding n cmds b by simp
  moreover from T have "\<exists>evs. events (snd (setup_py posix_down ?c boot)) = evs @ [Log (FailedToConnect 2)]"
    unfolding k by simp
  ultimately show ?thesis by (intro conjI)
qed

theorem C2_failure_signal_counterexample:
  "fst (setup_py posix_down ((defaults ''Town04'')\<lparr>num_max_restarts := 1\<rparr>) boot) = Inl (SystemExit None) \<and>
   \<not> (\<exists>e. fst (setup_py posix_down ((defaults ''Town04'')\<lparr>num_max_restarts := 1\<rparr>) boot) = Inl e
          \<and> exit_status e \<noteq> 0)"
proof -
  have run: "fst (setup_py posix_down ((defaults ''Town04'')\<lparr>num_max_restarts := 1\<rparr>) boot)
      = Inl (SystemExit None)"
    by (simp add: run_defs posix_down_def boot_def defaults_def
        cong: sum.case_cong_weak prod.case_cong_weak option.case_cong_weak)
  then show ?thesis by simp
qed





text \<open>
  C8.  \<open>Popen\<close> is called with \<open>shell=True\<close>, outside the try block.  What it starts is
  the shell; when the shell cannot be started, or \<open>CARLA_ROOT\<close> is not set (then
  \<open>os.path.join\<close> raises \<open>TypeError\<close>), the exception leaves \<open>setup\<close> from that attempt:
  after the two log lines of the attempt nothing more happens, no exit hook is
  registered and no further attempt is made.  A simulator executable that is missing
  is not such a case: the shell starts, \<open>Popen\<close> returns, the connection fails with a
  \<open>RuntimeError\<close> and the attempt is retried like any connection failure, until the
  attempts run out (the counterexample below).
\<close>

theorem C8_shell_spawn_error_is_fatal:
  assumes "a < num_max_restarts c" and "dicts s \<noteq> []"
    and "(dict_get os_environ ''CARLA_ROOT'' s = None \<and> e = TypeError) \<or>
         (\<exists>carla_root. dict_get os_environ ''CARLA_ROOT'' s = Some carla_root \<and>
            spawn w (shell_program w s) (server_command w carla_root (2000 + a)) = Inl e)"
  shows "\<exists>s'. setup_loop w c a s = (Inl e, s') \<and>
           events s' = events s @
             [Log (AttemptOutOf (a + 1) (num_max_restarts c)), Log (InitsServer (2000 + a))] \<and>
           exitfuncs s' = exitfuncs s"
proof -
  let ?s0 = "debug (AttemptOutOf (a + 1) (num_max_restarts c)) s"
  have d: "dicts ?s0 = dicts s" by (simp add: prim_defs)
  then have ne: "dicts ?s0 \<noteq> []" using assms(2) by simp
  have sh: "shell_program w ?s0 = shell_program w s"
    by (rule shell_program_environ) (simp add: d)
  have "\<exists>s1. launch w c a ?s0 = (Inl e, s1) \<and>
          events s1 = events ?s0 @ [Log (InitsServer (2000 + a))] \<and> exitfuncs s1 = exitfuncs ?s0"
    using assms(3)
    by (auto simp: launch_eq[OF ne] Let_def sh d dict_get_def os_environ_def)
  then obtain s1 where l: "launch w c a ?s0 = (Inl e, s1)"
    and ev: "events s1 = events ?s0 @ [Log (InitsServer (2000 + a))]"
    and ex: "exitfuncs s1 = exitfuncs ?s0" by blast
  have "setup_loop w c a s = (Inl e, s1)" by (rule setup_loop_launch_fails[OF assms(1) l])
  moreover have "events s1 = events s @
             [Log (AttemptOutOf (a + 1) (num_max_restarts c)), Log (InitsServer (2000 + a))]"
    using ev by (simp add: prim_defs)
  moreover have "exitfuncs s1 = exitfuncs s" using ex by (simp add: prim_defs)
  ultimately show ?thesis by blast
qed

theorem C8_shell_spawn_error_is_fatal_witness:
  "\<exists>s'. setup_loop (posix_down\<lparr>spawn := (\<lambda>prog cmd. Inl (OSError ''Resource temporarily unavailable''))\<rparr>)
            (defaults ''Town01'') 0 boot
          = (Inl (OSError ''Resource temporarily unavailable''), s') \<and>
        events s' = events boot @
          [Log (AttemptOutOf (0 + 1) (num_max_restarts (defaults ''Town01''))), Log (InitsServer (2000 + 0))] \<and>
        exitfuncs s' = exitfuncs boot"
proof -
  let ?w = "posix_down\<lparr>spawn := (\<lambda>prog cmd. Inl (OSError ''Resource temporarily unavailable''))\<rparr>"
  have h1: "0 < num_max_restarts (defaults ''Town01'')" by (simp add: defaults_def)
  have h2: "dicts boot \<noteq> []" by (simp add: boot_def)
  have h3: "(dict_get os_environ ''CARLA_ROOT'' boot = None \<and>
              OSError ''Resource temporarily unavailable'' = TypeError) \<or>
         (\<exists>carla_root. dict_get os_environ ''CARLA_ROOT'' boot = Some carla_root \<and>
            spawn ?w (shell_program ?w boot) (server_command ?w carla_root (2000 + 0))
              = Inl (OSError ''Resource temporarily unavailable''))"
    by (simp add: boot_def dict_get_def os_environ_def)
  show ?thesis
    using C8_shell_spawn_error_is_fatal[OF h1 h2 h3] by simp
qed

theorem C8_missing_executable_is_retried_counterexample:
  "spawn posix_no_executable (path_join posix_no_executable ''/opt/carla'' ''CarlaUE4.sh'') []
     = Inl (OSError ''No such file or directory'') \<and>
   fst (setup_py posix_no_executable ((defaults ''Town01'')\<lparr>num_max_restarts := 2\<rparr>) boot)
     = Inl (SystemExit None) \<and>
   client_ports (events (snd (setup_py posix_no_executable ((defaults ''Town01'')\<lparr>num_max_restarts := 2\<rparr>) boot)))
     = [2000, 2001] \<and>
   killed (events (snd (setup_py posix_no_executable ((defaults ''Town01'')\<lparr>num_max_restarts := 2\<rparr>) boot)))
     = [4242, 4242]"
  by (simp add: run_defs posix_no_executable_def boot_def defaults_def
      cong: sum.case_cong_weak prod.case_cong_weak option.case_cong_weak)

text \<open>
  C1.  The argument of \<open>atexit.unregister\<close> in line 103 is a new function object, equal
  to no registered function, so the call removes nothing.  After two failed attempts
  both registrations are active, although both processes were killed: on POSIX the two
  \<open>os.killpg\<close> entries, on Windows the two lambdas of line 66.
\<close>

theorem C1_registrations_accumulate:
  "exitfuncs (snd (setup_py posix_down ((defaults ''Town01'')\<lparr>num_max_restarts := 2\<rparr>) boot))
     = [(OsKillpg, [PyInt 6958, PySignal SIGKILL]), (OsKillpg, [PyInt 6959, PySignal SIGKILL])] \<and>
   killed (events (snd (setup_py posix_down ((defaults ''Town01'')\<lparr>num_max_restarts := 2\<rparr>) boot)))
     = [6958, 6959] \<and>
   exitfuncs (snd (setup_py windows_down ((defaults ''Town01'')\<lparr>num_max_restarts := 2\<rparr>) boot))
     = [(Lambda 0, []), (Lambda 2, [])]"
  by (simp add: run_defs posix_down_def windows_down_def boot_def defaults_def
      cong: sum.case_cong_weak prod.case_cong_weak option.case_cong_weak)

text \<open>
  C4.  After one failed attempt on POSIX the process group was killed by the handler and
  its registration is still active; at interpreter exit the registered \<open>os.killpg\<close>
  runs and signals the same process group a second time.
\<close>

theorem C4_stale_hook_runs_at_exit:
  "killed (events (snd (setup_py posix_down ((defaults ''Town01'')\<lparr>num_max_restarts := 1\<rparr>) boot)))
     = [6958] \<and>
   exitfuncs (snd (setup_py posix_down ((defaults ''Town01'')\<lparr>num_max_restarts := 1\<rparr>) boot))
     = [(OsKillpg, [PyInt 6958, PySignal SIGKILL])] \<and>
   killed (events (run_exitfuncs (snd (setup_py posix_down ((defaults ''Town01'')\<lparr>num_max_restarts := 1\<rparr>) boot))))
     = [6958, 6958]"
  by (simp add: run_defs run_exitfuncs_def posix_down_def boot_def defaults_def
      cong: sum.case_cong_weak prod.case_cong_weak option.case_cong_weak)

end
